theory Spec2Isabelle
  imports Complex_Main
begin

section \<open>The Kriging surrogate of \<^verbatim>\<open>openmdao/surrogate_models/kriging.py\<close>\<close>

text \<open>
  A shallow embedding of \<^verbatim>\<open>KrigingSurrogate\<close> and \<^verbatim>\<open>FloatKrigingSurrogate\<close>.

  \<^item> Array entries are real numbers: the arithmetic of the source is read as exact
    arithmetic, so rounding, overflow, \<^verbatim>\<open>inf\<close> and \<^verbatim>\<open>nan\<close> are outside the model.
    Where numpy would produce \<^verbatim>\<open>inf\<close> or \<^verbatim>\<open>nan\<close> without raising (a division
    by zero, the logarithm of a non-positive number) the model has the value HOL gives
    the operation.
  \<^item> A two-dimensional array is the list of its rows, a one-dimensional array a list.
    An array with no rows is represented with no columns.
  \<^item> Every exception the source or numpy can raise on the paths modelled is a value of
    type \<open>error\<close>; a function that can raise returns \<open>error + 'a\<close>.
  \<^item> \<^verbatim>\<open>scipy.linalg.svd\<close> and \<^verbatim>\<open>scipy.optimize.minimize\<close> are parameters of the
    model: nothing is assumed about what they return beyond what a theorem states.
\<close>

subsection \<open>Errors\<close>

datatype error =
    ValueError string
  | IndexError
  | RuntimeError string
  | AttributeError string
  | LinAlgError string
  | SystemExit

definition bnd :: "error + 'a \<Rightarrow> ('a \<Rightarrow> error + 'b) \<Rightarrow> error + 'b" where
  "bnd m f = (case m of Inl err \<Rightarrow> Inl err | Inr a \<Rightarrow> f a)"

subsection \<open>The fragment of numpy the source uses\<close>

type_synonym vec = "real list"
type_synonym mat = "real list list"

text \<open>What a caller may pass as \<^verbatim>\<open>array-like\<close>: a number, a flat sequence, a sequence of rows.\<close>

datatype array_like = Scalar real | Array1 vec | Array2 mat

text \<open>A value that is either a one- or a two-dimensional array.\<close>

datatype ndarray = A1 vec | A2 mat

text \<open>The element type of a query array, which \<^verbatim>\<open>predict\<close> reuses for its work array.\<close>

datatype dtype = Float64 | Int64

definition nrows :: "mat \<Rightarrow> nat" where
  "nrows a = length a"

definition ncols :: "mat \<Rightarrow> nat" where
  "ncols a = (case a of [] \<Rightarrow> 0 | r # _ \<Rightarrow> length r)"

text \<open>The array \<open>a\<close> has the shape \<open>(n, m)\<close>: \<open>n\<close> rows of \<open>m\<close> entries each.\<close>

definition rect :: "nat \<Rightarrow> nat \<Rightarrow> mat \<Rightarrow> bool" where
  "rect n m a \<longleftrightarrow> length a = n \<and> list_all (\<lambda>row. length row = m) a"

text \<open>\<^verbatim>\<open>np.atleast_2d\<close>: a number becomes a 1x1 array, a flat sequence a single row.\<close>

definition atleast_2d :: "array_like \<Rightarrow> mat" where
  "atleast_2d a = (case a of Scalar v \<Rightarrow> [[v]] | Array1 v \<Rightarrow> [v] | Array2 m \<Rightarrow> m)"

text \<open>The transpose \<^verbatim>\<open>.T\<close> of a two-dimensional array.\<close>

definition mT :: "mat \<Rightarrow> mat" where
  "mT a = map (\<lambda>j. map (\<lambda>row. row ! j) a) [0..<ncols a]"

text \<open>An elementwise function (\<^verbatim>\<open>np.exp\<close>, \<^verbatim>\<open>np.square\<close>, \<^verbatim>\<open>np.sqrt\<close>, ...).\<close>

definition mmap :: "(real \<Rightarrow> real) \<Rightarrow> mat \<Rightarrow> mat" where
  "mmap f a = map (map f) a"

text \<open>
  Broadcasting of a binary elementwise operation over two two-dimensional arrays: along
  each axis the lengths agree or one of them is 1, otherwise numpy raises
  \<^verbatim>\<open>ValueError\<close>. A one-dimensional operand of length \<open>d\<close> broadcasts as a single row
  \<open>[v]\<close>.
\<close>

definition bdim :: "nat \<Rightarrow> nat \<Rightarrow> nat" where
  "bdim m n = (if m = 1 then n else m)"

definition bc :: "(real \<Rightarrow> real \<Rightarrow> real) \<Rightarrow> mat \<Rightarrow> mat \<Rightarrow> error + mat" where
  "bc f a b =
     (if (nrows a = nrows b \<or> nrows a = 1 \<or> nrows b = 1) \<and>
         (ncols a = ncols b \<or> ncols a = 1 \<or> ncols b = 1)
      then Inr (map (\<lambda>i. map (\<lambda>j.
                  f (a ! (if nrows a = 1 then 0 else i) ! (if ncols a = 1 then 0 else j))
                    (b ! (if nrows b = 1 then 0 else i) ! (if ncols b = 1 then 0 else j)))
                [0..<bdim (ncols a) (ncols b)])
             [0..<bdim (nrows a) (nrows b)])
      else Inl (ValueError ''operands could not be broadcast together''))"

text \<open>\<^verbatim>\<open>np.dot\<close> of two two-dimensional arrays.\<close>

definition dot :: "mat \<Rightarrow> mat \<Rightarrow> error + mat" where
  "dot a b =
     (if ncols a = nrows b
      then Inr (map (\<lambda>row. map (\<lambda>j. \<Sum>k\<leftarrow>[0..<nrows b]. row ! k * b ! k ! j) [0..<ncols b]) a)
      else Inl (ValueError ''shapes not aligned''))"

text \<open>\<^verbatim>\<open>v.dot(m)\<close> for a one-dimensional \<open>v\<close>: the sum runs over the rows of \<open>m\<close>.\<close>

definition dot_vm :: "vec \<Rightarrow> mat \<Rightarrow> error + vec" where
  "dot_vm v m =
     (if length v = nrows m
      then Inr (map (\<lambda>j. \<Sum>k\<leftarrow>[0..<length v]. v ! k * m ! k ! j) [0..<ncols m])
      else Inl (ValueError ''shapes not aligned''))"

text \<open>\<^verbatim>\<open>m.dot(w)\<close>: with a one-dimensional \<open>w\<close> the result is one-dimensional.\<close>

definition dot_nd :: "mat \<Rightarrow> ndarray \<Rightarrow> error + ndarray" where
  "dot_nd m w =
     (case w of
        A1 v \<Rightarrow>
          (if ncols m = length v
           then Inr (A1 (map (\<lambda>row. \<Sum>k\<leftarrow>[0..<length v]. row ! k * v ! k) m))
           else Inl (ValueError ''shapes not aligned''))
      | A2 b \<Rightarrow> bnd (dot m b) (\<lambda>c. Inr (A2 c)))"

definition nd_T :: "ndarray \<Rightarrow> ndarray" where
  "nd_T w = (case w of A1 v \<Rightarrow> A1 v | A2 b \<Rightarrow> A2 (mT b))"

text \<open>\<^verbatim>\<open>np.einsum('i,ij->ij', v, m)\<close>: row \<open>i\<close> of \<open>m\<close> scaled by \<open>v[i]\<close>.\<close>

definition einsum_i_ij :: "vec \<Rightarrow> mat \<Rightarrow> error + mat" where
  "einsum_i_ij v m =
     (if length v = nrows m
      then Inr (map (\<lambda>i. map (\<lambda>c. v ! i * c) (m ! i)) [0..<nrows m])
      else Inl (ValueError ''einsum: operands could not be broadcast together''))"

text \<open>
  \<^verbatim>\<open>np.einsum('i,j,ij->ij', u, v, w)\<close>: the third operand has to be two-dimensional.
\<close>

definition einsum_i_j_ij :: "vec \<Rightarrow> vec \<Rightarrow> ndarray \<Rightarrow> error + mat" where
  "einsum_i_j_ij u v w =
     (case w of
        A1 _ \<Rightarrow> Inl (ValueError ''einsum: too many subscripts for operand 2'')
      | A2 m \<Rightarrow>
          (if length u = nrows m \<and> length v = ncols m
           then Inr (map (\<lambda>i. map (\<lambda>j. u ! i * v ! j * m ! i ! j) [0..<ncols m]) [0..<nrows m])
           else Inl (ValueError ''einsum: operands could not be broadcast together'')))"

text \<open>
  \<^verbatim>\<open>np.mean(x, axis=0)\<close> and \<^verbatim>\<open>np.std(x, axis=0)\<close> (the population deviation), read
  over the real numbers like the rest of the arithmetic: the values are the exact mean
  and deviation of a column. The binary64 results of numpy differ from them by rounding
  (the deviation of a constant column can come out as a tiny non-zero number, a tiny
  deviation can underflow to 0) and by overflow (a column sum beyond the largest float
  gives \<^verbatim>\<open>inf\<close>); no statement below is about those effects.
\<close>

definition mean0 :: "mat \<Rightarrow> vec" where
  "mean0 a = map (\<lambda>j. (\<Sum>row\<leftarrow>a. row ! j) / real (nrows a)) [0..<ncols a]"

definition std0 :: "mat \<Rightarrow> vec" where
  "std0 a =
     map (\<lambda>j. sqrt ((\<Sum>row\<leftarrow>a. \<bar>row ! j - mean0 a ! j\<bar> ^ 2) / real (nrows a))) [0..<ncols a]"

text \<open>\<^verbatim>\<open>s[s == 0.] = 1.\<close>\<close>

definition clamp_zero_std :: "vec \<Rightarrow> vec" where
  "clamp_zero_std s = map (\<lambda>v. if v = 0 then 1 else v) s"

text \<open>
  What a store into an array of element type \<open>t\<close> keeps of a float: an integer array
  keeps the value truncated towards zero.
\<close>

definition cast :: "dtype \<Rightarrow> real \<Rightarrow> real" where
  "cast t v = (case t of Float64 \<Rightarrow> v
                | Int64 \<Rightarrow> (if 0 \<le> v then of_int \<lfloor>v\<rfloor> else of_int \<lceil>v\<rceil>))"

subsection \<open>The engine\<close>

text \<open>
  The nugget is a number or an array with one entry for each training point
  (the docstring of the class).
\<close>

datatype nugget = NuggetScalar real | NuggetArray vec

text \<open>
  The dictionary \<^verbatim>\<open>params\<close> that \<^verbatim>\<open>_calculate_reduced_likelihood_params\<close> returns. It
  always has the same seven keys, so it is a record.
\<close>

record params =
  mu :: mat
  SigmaSqr :: mat
  S_inv :: vec
  U :: mat
  Vh :: mat
  c_r :: mat
  R_inv :: mat

text \<open>
  The attributes of a \<^verbatim>\<open>KrigingSurrogate\<close>. The seven attributes that \<^verbatim>\<open>train\<close> copies
  from \<^verbatim>\<open>params\<close> do not exist before that (reading them raises
  \<^verbatim>\<open>AttributeError\<close>) and are assigned together, with nothing that can fail in
  between: they are the field \<open>model\<close>, \<open>None\<close> while they do not exist.

  Modelled from the spec: the base class \<^verbatim>\<open>SurrogateModel\<close> is not among the sources.
  The spec says that it only mandates that \<^verbatim>\<open>train\<close> is called before
  \<^verbatim>\<open>predict\<close>, and that \<^verbatim>\<open>predict\<close> raises if \<^verbatim>\<open>train\<close> was never called: the
  field \<open>trained\<close>, set by the base \<^verbatim>\<open>train\<close> and tested by the base \<^verbatim>\<open>predict\<close>.
\<close>

record engine =
  trained :: bool
  n_dims :: nat
  n_samples :: nat
  thetas :: vec
  nugget :: nugget
  alpha :: ndarray
  L :: ndarray
  sigma2 :: ndarray
  X :: mat
  Y :: mat
  X_mean :: vec
  X_std :: vec
  Y_mean :: vec
  Y_std :: vec
  model :: "params option"

text \<open>\<^verbatim>\<open>KrigingSurrogate.__init__\<close>: every array is \<^verbatim>\<open>np.zeros(0)\<close>.\<close>

definition init :: "nugget \<Rightarrow> engine" where
  "init ng =
     \<lparr>trained = False, n_dims = 0, n_samples = 0, thetas = [], nugget = ng,
      alpha = A1 [], L = A1 [], sigma2 = A1 [],
      X = [], Y = [], X_mean = [], X_std = [], Y_mean = [], Y_std = [],
      model = None\<rparr>"

text \<open>The two library functions the engine calls, as parameters.\<close>

type_synonym svd_fun = "mat \<Rightarrow> error + (mat \<times> vec \<times> mat)"

record opt_result =
  success :: bool
  opt_x :: vec
  message :: string

text \<open>
  \<^verbatim>\<open>minimize(fun, x0, method='slsqp', options={'eps': 1e-3}, bounds=bounds)\<close>: the
  callback, the starting point (a column) and the bounds are the arguments that vary.
\<close>

type_synonym minimize_fun =
  "(vec \<Rightarrow> error + mat) \<Rightarrow> mat \<Rightarrow> (real \<times> real) list \<Rightarrow> error + opt_result"

subsection \<open>The reduced likelihood\<close>

text \<open>
  The array \<^verbatim>\<open>distances\<close> of shape \<open>(n_samples, n_dims, n_samples)\<close>, as a function of
  its three indices. One turn of the loop stores two slices:
  \<^verbatim>\<open>distances[i, :, i+1:] = np.abs(X[i, ...] - X[i+1:, ...]).T\<close> and then
  \<^verbatim>\<open>distances[i+1:, :, i] = distances[i, :, i+1:].T\<close>, which reads what the first stored.
\<close>

type_synonym tensor = "nat \<Rightarrow> nat \<Rightarrow> nat \<Rightarrow> real"

definition distances_step :: "mat \<Rightarrow> nat \<Rightarrow> nat \<Rightarrow> nat \<Rightarrow> tensor \<Rightarrow> tensor" where
  "distances_step xs n nd i ds =
     (let d1 = (\<lambda>a d k. if a = i \<and> d < nd \<and> i < k \<and> k < n
                          then \<bar>xs ! i ! d - xs ! k ! d\<bar> else ds a d k)
      in (\<lambda>a d k. if i < a \<and> a < n \<and> d < nd \<and> k = i then d1 i d a else d1 a d k))"

definition distances :: "mat \<Rightarrow> nat \<Rightarrow> nat \<Rightarrow> tensor" where
  "distances xs n nd = fold (distances_step xs n nd) [0..<n] (\<lambda>a d k. 0)"

text \<open>
  \<^verbatim>\<open>np.exp(-thetas.dot(np.square(distances)))\<close>: the product sums over the middle axis,
  whose length has to be the length of \<^verbatim>\<open>thetas\<close>.
\<close>

definition correlation :: "vec \<Rightarrow> tensor \<Rightarrow> nat \<Rightarrow> nat \<Rightarrow> error + mat" where
  "correlation th ds n nd =
     (if length th = nd
      then Inr (map (\<lambda>i. map (\<lambda>k. exp (- (\<Sum>d\<leftarrow>[0..<nd]. th ! d * (ds i d k) ^ 2)))
                             [0..<n]) [0..<n])
      else Inl (ValueError ''shapes not aligned''))"

text \<open>
  \<^verbatim>\<open>R[np.diag_indices_from(R)] = 1. + self.nugget\<close>: an array of nuggets has one entry
  for each diagonal entry, or a single entry that is broadcast.
\<close>

definition nugget_at :: "nugget \<Rightarrow> nat \<Rightarrow> real" where
  "nugget_at ng i =
     (case ng of NuggetScalar v \<Rightarrow> v
      | NuggetArray vs \<Rightarrow> vs ! (if length vs = 1 then 0 else i))"

definition set_diag :: "mat \<Rightarrow> nugget \<Rightarrow> error + mat" where
  "set_diag r ng =
     (if (case ng of NuggetScalar _ \<Rightarrow> True
          | NuggetArray vs \<Rightarrow> length vs = nrows r \<or> length vs = 1)
      then Inr (map (\<lambda>i. (r ! i)[i := 1 + nugget_at ng i]) [0..<nrows r])
      else Inl (ValueError ''shape mismatch: value array could not be broadcast''))"

text \<open>
  The correlation matrix \<^verbatim>\<open>R\<close> of \<^verbatim>\<open>_calculate_reduced_likelihood_params\<close>: the lines
  from \<^verbatim>\<open>distances = np.zeros(...)\<close> to the store into the diagonal. The two slice
  stores of the loop raise unless the stored \<^verbatim>\<open>X\<close> has the shape
  \<open>(n_samples, n_dims)\<close> that \<^verbatim>\<open>train\<close> records together with it: the first test.
\<close>

definition correlation_matrix :: "engine \<Rightarrow> vec \<Rightarrow> error + mat" where
  "correlation_matrix e th =
     (if \<not> rect (n_samples e) (n_dims e) (X e)
      then Inl (ValueError ''could not broadcast input array'')
      else
      bnd (correlation th (distances (X e) (n_samples e) (n_dims e)) (n_samples e) (n_dims e))
        (\<lambda>r0. set_diag r0 (nugget e)))"

text \<open>\<^verbatim>\<open>KrigingSurrogate._calculate_reduced_likelihood_params\<close>.\<close>

definition calculate_reduced_likelihood_params ::
    "svd_fun \<Rightarrow> engine \<Rightarrow> vec option \<Rightarrow> error + (mat \<times> params)" where
  "calculate_reduced_likelihood_params svd e thetas_arg =
     (let th = (case thetas_arg of None \<Rightarrow> thetas e | Some t \<Rightarrow> t);
          n = n_samples e
      in
      bnd (correlation_matrix e th) (\<lambda>r.
      bnd (svd r) (\<lambda>(u, s, vh).
      (case s of
         [] \<Rightarrow> Inl IndexError
       | s0 # _ \<Rightarrow>
          (let h = s0 / 10 ^ 8;
               inv_factors = map (\<lambda>v. v / (v ^ 2 + h ^ 2)) s
           in
           bnd (einsum_i_ij inv_factors (mT u)) (\<lambda>w.
           bnd (dot (mT vh) w) (\<lambda>r_inv.
           (let logdet = 2 * (\<Sum>f\<leftarrow>inv_factors. ln \<bar>f\<bar>);
                one = replicate n [1]
            in
            bnd (dot r_inv (Y e)) (\<lambda>ry.
            bnd (dot (mT one) ry) (\<lambda>num.
            bnd (dot r_inv one) (\<lambda>r1.
            bnd (dot (mT one) r1) (\<lambda>den.
            bnd (bc (/) num den) (\<lambda>m.
            bnd (bc (*) one m) (\<lambda>onemu.
            bnd (bc (-) (Y e) onemu) (\<lambda>resid.
            bnd (dot r_inv resid) (\<lambda>cr.
            bnd (dot (mT resid) cr) (\<lambda>sd.
            (let sig = mmap (\<lambda>v. v / real n) sd;
                 reduced_likelihood =
                   mmap (\<lambda>v. 1 * (- (real n / 2) * ln v - (1 / 2) * logdet)) sig
             in Inr (reduced_likelihood,
                     \<lparr>mu = m, SigmaSqr = sig, S_inv = inv_factors, U = u, Vh = vh,
                      c_r = cr, R_inv = r_inv\<rparr>)))))))))))))))))))"

subsection \<open>Training\<close>

text \<open>The callback \<^verbatim>\<open>_calcll\<close> of \<^verbatim>\<open>train\<close>.\<close>

definition calcll :: "svd_fun \<Rightarrow> engine \<Rightarrow> vec \<Rightarrow> error + mat" where
  "calcll svd e ts =
     bnd (calculate_reduced_likelihood_params svd e (Some (map (\<lambda>t. 10 powr t) ts)))
       (\<lambda>(loglike, _). Inr (mmap uminus loglike))"

text \<open>What \<^verbatim>\<open>train\<close> writes to standard output.\<close>

datatype printed = PStr string | PVec vec | PMat mat

text \<open>
  \<^verbatim>\<open>(x - mean) / std\<close> for a two-dimensional \<open>x\<close> and the statistics of its own columns.
\<close>

definition normalized :: "mat \<Rightarrow> vec \<Rightarrow> vec \<Rightarrow> mat" where
  "normalized a m s = map (\<lambda>row. map (\<lambda>j. (row ! j - m ! j) / s ! j) [0..<length m]) a"

text \<open>
  The statistics and the stored data of \<^verbatim>\<open>train\<close>, from \<^verbatim>\<open>X_mean = np.mean(x, axis=0)\<close>
  to \<^verbatim>\<open>self.Y_mean, self.Y_std = Y_mean, Y_std\<close>.
\<close>

definition store_normalized :: "engine \<Rightarrow> mat \<Rightarrow> mat \<Rightarrow> bool \<Rightarrow> engine" where
  "store_normalized e x2 y2 normalize_flag =
     (let xm = mean0 x2;
          xs = clamp_zero_std (std0 x2);
          ym = mean0 y2;
          ys = clamp_zero_std (std0 y2);
          e2 = (if normalize_flag
                then e\<lparr>X := normalized x2 xm xs, Y := normalized y2 ym ys\<rparr>
                else e\<lparr>X := x2, Y := y2\<rparr>)
      in e2\<lparr>X_mean := xm, X_std := xs, Y_mean := ym, Y_std := ys\<rparr>)"

text \<open>
  \<^verbatim>\<open>KrigingSurrogate.train\<close>. The result is the engine as the call leaves it, what it
  printed, and how it ended: \<open>Inr ()\<close> would be a return to the caller, \<open>Inl err\<close> is the
  exception \<open>err\<close>. The source ends with \<^verbatim>\<open>exit()\<close>, which raises \<^verbatim>\<open>SystemExit\<close>.
\<close>

definition train ::
    "svd_fun \<Rightarrow> minimize_fun \<Rightarrow> engine \<Rightarrow> array_like \<Rightarrow> array_like \<Rightarrow> bool
      \<Rightarrow> engine \<times> printed list \<times> (error + unit)" where
  "train svd minimize e x y normalize_flag =
     (let x2 = atleast_2d x;
          y2 = atleast_2d y;
          e1 = e\<lparr>trained := True, n_samples := nrows x2, n_dims := ncols x2\<rparr>
      in
      if n_samples e1 \<le> 1
      then (e1, [], Inl (ValueError ''KrigingSurrogate require at least 2 training points.''))
      else
      (let e3 = store_normalized e1 x2 y2 normalize_flag;
           bounds = replicate (n_dims e3) (- 3, 2);
           x0 = replicate (n_dims e3) [- 3 * 1 + (1 / 2) * (5 * 1)]
       in
       (case minimize (calcll svd e3) x0 bounds of
          Inl err \<Rightarrow> (e3, [], Inl err)
        | Inr res \<Rightarrow>
           (if \<not> success res
            then (e3, [],
                  Inl (ValueError (''Kriging Hyper-parameter optimization failed: '' @ message res)))
            else
            (let e4 = e3\<lparr>thetas := map (\<lambda>t. 10 powr t) (opt_x res)\<rparr> in
             (case calculate_reduced_likelihood_params svd e4 None of
                Inl err \<Rightarrow> (e4, [], Inl err)
              | Inr (_, p) \<Rightarrow>
                 (let e5 = e4\<lparr>model := Some p\<rparr> in
                  (e5,
                   [PStr ''kriging test'', PVec (thetas e5), PMat (R_inv p),
                    PMat (SigmaSqr p), PMat (mu p)],
                   Inl SystemExit))))))))"

subsection \<open>Prediction\<close>

text \<open>
  \<^verbatim>\<open>np.exp(-thetas.dot(np.square((x_i - X).T)))\<close>: the correlation of one query row with
  every stored training row.
\<close>

definition kernel_row :: "vec \<Rightarrow> mat \<Rightarrow> vec \<Rightarrow> error + vec" where
  "kernel_row th xs x_i =
     bnd (bc (-) [x_i] xs) (\<lambda>diff.
     bnd (dot_vm th (mmap (\<lambda>v. v ^ 2) (mT diff))) (\<lambda>s.
     Inr (map (\<lambda>v. exp (- v)) s)))"

text \<open>
  \<^verbatim>\<open>r_i[:] = ...\<close>: the store into a row of \<^verbatim>\<open>r\<close>, which has \<open>n\<close> entries of the
  element type of the query array.
\<close>

definition store_row :: "dtype \<Rightarrow> nat \<Rightarrow> vec \<Rightarrow> error + vec" where
  "store_row t n v =
     (if length v = n then Inr (map (cast t) v)
      else if length v = 1 then Inr (replicate n (cast t (v ! 0)))
      else Inl (ValueError ''could not broadcast input array''))"

text \<open>The loop \<^verbatim>\<open>for r_i, x_i in zip(r, x_n)\<close>, one row of \<^verbatim>\<open>r\<close> for each query row.\<close>

fun correlation_rows :: "dtype \<Rightarrow> nat \<Rightarrow> vec \<Rightarrow> mat \<Rightarrow> mat \<Rightarrow> error + mat" where
  "correlation_rows t n th xs [] = Inr []"
| "correlation_rows t n th xs (x_i # rest) =
     bnd (kernel_row th xs x_i) (\<lambda>v.
     bnd (store_row t n v) (\<lambda>r_i.
     bnd (correlation_rows t n th xs rest) (\<lambda>rs.
     Inr (r_i # rs))))"

text \<open>\<^verbatim>\<open>predict\<close> returns the mean alone or the pair of the mean and the RMSE.\<close>

datatype pred_result = Mean mat | MeanRmse mat mat

text \<open>
  The estimate of the mean squared error in \<^verbatim>\<open>predict\<close>, for the correlations \<open>r\<close>:
  \<^verbatim>\<open>SigmaSqr*(1.0 - dot(r.T, dot(R_inv, r)) + ((1.0 - dot(one.T, dot(R_inv, r)))**2 /
  dot(one.T, dot(R_inv, one))))\<close>.
\<close>

definition mse_estimate :: "engine \<Rightarrow> params \<Rightarrow> mat \<Rightarrow> error + mat" where
  "mse_estimate e p r =
     (let one = replicate (n_samples e) [1] in
      bnd (dot (R_inv p) r) (\<lambda>rr.
      bnd (dot (mT r) rr) (\<lambda>q.
      bnd (bc (-) [[1]] q) (\<lambda>t1.
      bnd (dot (mT one) rr) (\<lambda>o1.
      bnd (bc (-) [[1]] o1) (\<lambda>t2.
      bnd (dot (R_inv p) one) (\<lambda>r1.
      bnd (dot (mT one) r1) (\<lambda>den.
      bnd (bc (/) (mmap (\<lambda>v. v ^ 2) t2) den) (\<lambda>t3.
      bnd (bc (+) t1 t3) (\<lambda>t4.
      bc (*) (SigmaSqr p) t4))))))))))"

text \<open>
  \<^verbatim>\<open>KrigingSurrogate.predict\<close>; \<open>t\<close> is the element type of the query array \<open>x\<close>.
\<close>

definition predict ::
    "engine \<Rightarrow> dtype \<Rightarrow> array_like \<Rightarrow> bool \<Rightarrow> bool \<Rightarrow> error + pred_result" where
  "predict e t x eval_rmse normalize_flag =
     (if \<not> trained e
      then Inl (RuntimeError ''KrigingSurrogate has not been trained, so no prediction can be made'')
      else
      (let x2 = atleast_2d x in
       bnd (if normalize_flag
            then bnd (bc (-) x2 [X_mean e]) (\<lambda>d. bc (/) d [X_std e])
            else Inr x2) (\<lambda>x_n.
       bnd (correlation_rows t (n_samples e) (thetas e) (X e) x_n) (\<lambda>r0.
       (let r = (if n_samples e > 1 then mT r0 else r0) in
        (case model e of
           None \<Rightarrow> Inl (AttributeError ''mu'')
         | Some p \<Rightarrow>
            bnd (dot (mT r) (c_r p)) (\<lambda>rc.
            bnd (bc (+) (mu p) rc) (\<lambda>y.
            if eval_rmse
            then
              bnd (mse_estimate e p r) (\<lambda>mse.
              (let clamped = mmap (\<lambda>v. if v < 0 then 0 else v) mse
               in Inr (MeanRmse y (mmap sqrt clamped))))
            else Inr (Mean y)))))))))"

text \<open>
  \<^verbatim>\<open>FloatKrigingSurrogate.predict\<close>: \<^verbatim>\<open>dist[0]\<close>, where \<^verbatim>\<open>dist\<close> is what the full
  predictor returned. On an array the index takes the first row (\<^verbatim>\<open>IndexError\<close> when
  there is none), on a pair its first component.
\<close>

definition float_predict :: "engine \<Rightarrow> dtype \<Rightarrow> array_like \<Rightarrow> error + ndarray" where
  "float_predict e t x =
     bnd (predict e t x False True) (\<lambda>res.
       (case res of
          Mean y \<Rightarrow> (case y of [] \<Rightarrow> Inl IndexError | row # _ \<Rightarrow> Inr (A1 row))
        | MeanRmse y _ \<Rightarrow> Inr (A2 y)))"

subsection \<open>The Jacobian\<close>

text \<open>
  The first lines of \<^verbatim>\<open>KrigingSurrogate.linearize\<close>, up to \<^verbatim>\<open>gradr\<close>: the normalized
  query \<^verbatim>\<open>x_n\<close>, the correlations \<^verbatim>\<open>r\<close> and
  \<^verbatim>\<open>gradr = r * -2 * np.einsum('i,ij->ij', thetas, (x_n - self.X).T)\<close>.
\<close>

definition linearize_x_n :: "engine \<Rightarrow> array_like \<Rightarrow> error + mat" where
  "linearize_x_n e x = bnd (bc (-) (atleast_2d x) [X_mean e]) (\<lambda>d. bc (/) d [X_std e])"

definition linearize_gradr :: "engine \<Rightarrow> array_like \<Rightarrow> error + mat" where
  "linearize_gradr e x =
     bnd (linearize_x_n e x) (\<lambda>x_n.
     bnd (bc (-) x_n (X e)) (\<lambda>diff.
     bnd (dot_vm (thetas e) (mmap (\<lambda>v. v ^ 2) (mT diff))) (\<lambda>s.
     (let r = map (\<lambda>v. exp (- v)) s in
      bnd (einsum_i_ij (thetas e) (mT diff)) (\<lambda>td.
      bc (*) [map (\<lambda>v. v * (- 2)) r] td)))))"

text \<open>
  \<^verbatim>\<open>KrigingSurrogate.linearize\<close>:
  \<^verbatim>\<open>jac = np.einsum('i,j,ij->ij', self.Y_std, 1./self.X_std, gradr.dot(self.alpha).T)\<close>.
\<close>

definition linearize :: "engine \<Rightarrow> array_like \<Rightarrow> error + mat" where
  "linearize e x =
     bnd (linearize_gradr e x) (\<lambda>gradr.
     bnd (dot_nd gradr (alpha e)) (\<lambda>ga.
     einsum_i_j_ij (Y_std e) (map (\<lambda>s. 1 / s) (X_std e)) (nd_T ga)))"

subsection \<open>Example inputs\<close>

text \<open>
  A small engine in the state a training run leaves behind: two samples of one input and
  one output, \<open>x = [[0], [2]]\<close> and \<open>y = [[0], [2]]\<close>, normalized.
\<close>

definition example_engine :: engine where
  "example_engine =
     \<lparr>trained = True, n_dims = 1, n_samples = 2, thetas = [1], nugget = NuggetScalar (1 / 10),
      alpha = A1 [], L = A1 [], sigma2 = A1 [],
      X = [[- 1], [1]], Y = [[- 1], [1]],
      X_mean = [1], X_std = [1], Y_mean = [1], Y_std = [1],
      model = Some \<lparr>mu = [[0]], SigmaSqr = [[1]], S_inv = [1, 1],
                     U = [[1, 0], [0, 1]], Vh = [[1, 0], [0, 1]],
                     c_r = [[- 1], [1]], R_inv = [[1, 0], [0, 1]]\<rparr>\<rparr>"

text \<open>
  Stand-ins for the two library functions: a decomposition that returns unit factors and
  an optimizer that reports success at \<open>log10 theta = 0\<close> without calling back.
\<close>

definition example_svd :: svd_fun where
  "example_svd r = Inr ([[1, 0], [0, 1]], [1, 1], [[1, 0], [0, 1]])"

definition example_minimize :: minimize_fun where
  "example_minimize f x0 bounds =
     Inr \<lparr>success = True, opt_x = [0], message = ''Optimization terminated successfully.''\<rparr>"

section \<open>Properties\<close>

subsection \<open>Training: the shape check\<close>

lemma atleast_2d_Array2: "atleast_2d (Array2 m) = m"
  by (simp add: atleast_2d_def)

lemma atleast_2d_Array1: "atleast_2d (Array1 v) = [v]"
  by (simp add: atleast_2d_def)

text \<open>What every accepted call of \<open>train\<close> stores, however it ends.\<close>

lemma train_fields:
  "\<not> nrows (atleast_2d x) \<le> 1 \<Longrightarrow>
   (let e' = fst (train svd minimize e x y nf); x2 = atleast_2d x; y2 = atleast_2d y in
     trained e' \<and> n_samples e' = nrows x2 \<and> n_dims e' = ncols x2 \<and>
     X_mean e' = mean0 x2 \<and> X_std e' = clamp_zero_std (std0 x2) \<and>
     Y_mean e' = mean0 y2 \<and> Y_std e' = clamp_zero_std (std0 y2) \<and>
     X e' = (if nf then normalized x2 (mean0 x2) (clamp_zero_std (std0 x2)) else x2) \<and>
     Y e' = (if nf then normalized y2 (mean0 y2) (clamp_zero_std (std0 y2)) else y2) \<and>
     alpha e' = alpha e \<and> nugget e' = nugget e)"
  by (simp add: train_def store_normalized_def Let_def split: sum.splits prod.splits)

text \<open>
  C9. When the input of \<open>train\<close>, coerced to two dimensions, has fewer than two rows, the
  call raises the \<open>ValueError\<close> that asks for at least 2 training points. The engine it
  leaves and the error do not depend on the optimizer or on the decomposition: neither
  is called.
\<close>

theorem train_insufficient_data:
  "nrows (atleast_2d x) < 2 \<Longrightarrow>
   train svd minimize e x y nf =
     (e\<lparr>trained := True, n_samples := nrows (atleast_2d x), n_dims := ncols (atleast_2d x)\<rparr>,
      [],
      Inl (ValueError ''KrigingSurrogate require at least 2 training points.''))"
  by (simp add: train_def Let_def)

text \<open>A flat sequence of three numbers is a single row of three columns.\<close>

theorem train_insufficient_data_witness:
  "nrows (atleast_2d (Array1 [1, 2, 3])) < 2 \<and>
   train example_svd example_minimize (init (NuggetScalar 0)) (Array1 [1, 2, 3])
       (Array1 [1, 4, 9]) True =
     ((init (NuggetScalar 0))\<lparr>trained := True, n_samples := 1, n_dims := 3\<rparr>, [],
      Inl (ValueError ''KrigingSurrogate require at least 2 training points.''))"
proof -
  have h: "nrows (atleast_2d (Array1 [1, 2, 3])) < 2"
    by (simp add: atleast_2d_Array1 nrows_def)
  show ?thesis
    using h train_insufficient_data[OF h, of example_svd example_minimize
        "init (NuggetScalar 0)" "Array1 [1, 4, 9]" True]
    by (simp add: atleast_2d_Array1 nrows_def ncols_def)
qed

subsection \<open>The correlation matrix\<close>

lemma distances_step_apply:
  "distances_step xs n nd i ds a d k =
     (if i < a \<and> a < n \<and> d < nd \<and> k = i then \<bar>xs ! i ! d - xs ! a ! d\<bar>
      else if a = i \<and> d < nd \<and> i < k \<and> k < n then \<bar>xs ! i ! d - xs ! k ! d\<bar>
      else ds a d k)"
  by (simp add: distances_step_def Let_def)

text \<open>The loop invariant: after \<open>m\<close> turns the pairs with an index below \<open>m\<close> are filled.\<close>

lemma distances_fold:
  "m \<le> n \<Longrightarrow>
   fold (distances_step xs n nd) [0..<m] (\<lambda>a d k. 0) a d k =
     (if d < nd \<and> a < n \<and> k < n \<and> a \<noteq> k \<and> (a < m \<or> k < m)
      then \<bar>xs ! a ! d - xs ! k ! d\<bar> else 0)"
proof (induction m arbitrary: a d k)
  case 0
  then show ?case by simp
next
  case (Suc m)
  define prev where "prev = fold (distances_step xs n nd) [0..<m] (\<lambda>a d k. 0)"
  have IH: "prev a d k =
     (if d < nd \<and> a < n \<and> k < n \<and> a \<noteq> k \<and> (a < m \<or> k < m)
      then \<bar>xs ! a ! d - xs ! k ! d\<bar> else 0)" for a d k
    using Suc by (simp add: prev_def)
  have unroll: "fold (distances_step xs n nd) [0..<Suc m] (\<lambda>a d k. 0) a d k
      = distances_step xs n nd m prev a d k"
    by (simp add: prev_def)
  from Suc.prems have mn: "m < n" by simp
  show ?case
    unfolding unroll
    using mn by (auto simp: distances_step_apply IH abs_minus_commute)
qed

lemma distances_entry:
  "distances xs n nd a d k =
     (if d < nd \<and> a < n \<and> k < n \<and> a \<noteq> k then \<bar>xs ! a ! d - xs ! k ! d\<bar> else 0)"
  unfolding distances_def by (subst distances_fold) auto

lemma sum_list_upt_cong:
  "(\<And>i. i < n \<Longrightarrow> f i = g i) \<Longrightarrow> (\<Sum>i\<leftarrow>[0..<n]. f i) = (\<Sum>i\<leftarrow>[0..<n]. (g i :: real))"
  by (rule arg_cong[where f = sum_list]) (rule map_cong, auto)

text \<open>
  C7. For a stored \<open>X\<close> of the recorded shape, one \<open>theta\<close> for each dimension and a
  nugget that fits, the evaluator builds a square matrix \<open>r\<close> with
  \<open>r[i][j] = exp (- \<Sum>d. th[d] * (X[i][d] - X[j][d])\<^sup>2)\<close> off the diagonal, one plus the
  nugget (of that sample, when the nugget is an array) on the diagonal, and
  \<open>r[i][j] = r[j][i]\<close> everywhere.
\<close>

theorem correlation_matrix_entries:
  assumes shape: "rect (n_samples e) (n_dims e) (X e)"
    and th: "length th = n_dims e"
    and ng: "case nugget e of NuggetScalar _ \<Rightarrow> True
             | NuggetArray vs \<Rightarrow> length vs = n_samples e \<or> length vs = 1"
  shows "\<exists>r. correlation_matrix e th = Inr r \<and> length r = n_samples e \<and>
     (\<forall>i < n_samples e. length (r ! i) = n_samples e \<and> r ! i ! i = 1 + nugget_at (nugget e) i \<and>
        (\<forall>j < n_samples e. r ! i ! j = r ! j ! i \<and>
           (i \<noteq> j \<longrightarrow> r ! i ! j =
              exp (- (\<Sum>d\<leftarrow>[0..<n_dims e]. th ! d * (X e ! i ! d - X e ! j ! d) ^ 2)))))"
proof -
  let ?n = "n_samples e"
  let ?ra = "map (\<lambda>i. map (\<lambda>k. exp (- (\<Sum>d\<leftarrow>[0..<n_dims e].
                 th ! d * (distances (X e) ?n (n_dims e) i d k) ^ 2))) [0..<?n]) [0..<?n]"
  let ?rb = "map (\<lambda>i. (?ra ! i)[i := 1 + nugget_at (nugget e) i]) [0..<?n]"
  have c: "correlation th (distances (X e) ?n (n_dims e)) ?n (n_dims e) = Inr ?ra"
    using th by (simp add: correlation_def)
  have s: "set_diag ?ra (nugget e) = Inr ?rb"
    using ng by (simp add: set_diag_def nrows_def split: nugget.splits)
  have cm: "correlation_matrix e th = Inr ?rb"
    using shape c s by (simp add: correlation_matrix_def bnd_def)
  have off: "?rb ! i ! j = exp (- (\<Sum>d\<leftarrow>[0..<n_dims e]. th ! d * (X e ! i ! d - X e ! j ! d) ^ 2))"
    if "i < ?n" "j < ?n" "i \<noteq> j" for i j
  proof -
    have "?rb ! i ! j = exp (- (\<Sum>d\<leftarrow>[0..<n_dims e].
        th ! d * (distances (X e) ?n (n_dims e) i d j) ^ 2))"
      using that by simp
    also have "(\<Sum>d\<leftarrow>[0..<n_dims e]. th ! d * (distances (X e) ?n (n_dims e) i d j) ^ 2)
        = (\<Sum>d\<leftarrow>[0..<n_dims e]. th ! d * (X e ! i ! d - X e ! j ! d) ^ 2)"
      using that by (intro sum_list_upt_cong) (simp add: distances_entry)
    finally show ?thesis .
  qed
  have sym: "?rb ! i ! j = ?rb ! j ! i" if "i < ?n" "j < ?n" for i j
  proof (cases "i = j")
    case True
    then show ?thesis by simp
  next
    case False
    have "(\<Sum>d\<leftarrow>[0..<n_dims e]. th ! d * (X e ! i ! d - X e ! j ! d) ^ 2)
        = (\<Sum>d\<leftarrow>[0..<n_dims e]. th ! d * (X e ! j ! d - X e ! i ! d) ^ 2)"
      by (intro sum_list_upt_cong) (simp add: power2_commute)
    then show ?thesis
      using off[OF that False] off[OF that(2) that(1)] False by simp
  qed
  have diag: "?rb ! i ! i = 1 + nugget_at (nugget e) i" "length (?rb ! i) = ?n" if "i < ?n" for i
    using that by simp_all
  show ?thesis
    apply (rule exI[of _ ?rb])
    using cm off sym diag by simp
qed

text \<open>The matrix of the example engine, with the nugget \<open>1 / 10\<close>.\<close>

lemma example_correlation:
  "correlation_matrix example_engine [1] = Inr [[11 / 10, exp (- 4)], [exp (- 4), 11 / 10]]"
  by (simp add: correlation_matrix_def example_engine_def rect_def nrows_def bnd_def correlation_def
      distances_entry set_diag_def nugget_at_def upt_rec)

theorem correlation_matrix_entries_witness:
  "rect (n_samples example_engine) (n_dims example_engine) (X example_engine) \<and>
   length [1 :: real] = n_dims example_engine \<and>
   (\<exists>r. correlation_matrix example_engine [1] = Inr r \<and>
        r = [[11 / 10, exp (- 4)], [exp (- 4), 11 / 10]] \<and>
        r ! 0 ! 1 = r ! 1 ! 0 \<and> r ! 0 ! 0 = 1 + nugget_at (nugget example_engine) 0)"
proof -
  have h1: "rect (n_samples example_engine) (n_dims example_engine) (X example_engine)"
    by (simp add: example_engine_def rect_def)
  have h3: "length [1 :: real] = n_dims example_engine"
    by (simp add: example_engine_def)
  have h4: "case nugget example_engine of NuggetScalar _ \<Rightarrow> True
             | NuggetArray vs \<Rightarrow> length vs = n_samples example_engine \<or> length vs = 1"
    by (simp add: example_engine_def)
  from correlation_matrix_entries[OF h1 h3 h4]
  obtain r where r: "correlation_matrix example_engine [1] = Inr r"
    and d: "\<forall>i < n_samples example_engine. length (r ! i) = n_samples example_engine \<and>
        r ! i ! i = 1 + nugget_at (nugget example_engine) i \<and>
        (\<forall>j < n_samples example_engine. r ! i ! j = r ! j ! i \<and>
           (i \<noteq> j \<longrightarrow> r ! i ! j =
              exp (- (\<Sum>d\<leftarrow>[0..<n_dims example_engine]. [1] ! d * (X example_engine ! i ! d - X example_engine ! j ! d) ^ 2))))"
    by blast
  have n: "n_samples example_engine = 2" by (simp add: example_engine_def)
  from d n have "r ! 0 ! 0 = 1 + nugget_at (nugget example_engine) 0" "r ! 0 ! 1 = r ! 1 ! 0"
    by auto
  with r h1 h3 example_correlation show ?thesis by simp
qed

subsection \<open>Shapes of the array operations\<close>

text \<open>
  On operands of matching shapes the operations of numpy raise nothing, and the entries of
  their results are given index by index.
\<close>

lemma rectD:
  assumes "rect n m a"
  shows "length a = n" "nrows a = n" "\<And>i. i < n \<Longrightarrow> length (a ! i) = m"
  using assms by (auto simp: rect_def nrows_def list_all_length)

lemma rect_ncols: "rect n m a \<Longrightarrow> 0 < n \<Longrightarrow> ncols a = m"
  by (cases a) (auto simp: rect_def ncols_def)

lemma rectI: "length a = n \<Longrightarrow> (\<And>i. i < n \<Longrightarrow> length (a ! i) = m) \<Longrightarrow> rect n m a"
  by (auto simp: rect_def list_all_length)

lemma mT_rect:
  assumes "rect n m a" "0 < n"
  shows "rect m n (mT a)" "\<And>i j. i < n \<Longrightarrow> j < m \<Longrightarrow> mT a ! j ! i = a ! i ! j"
  using assms by (auto simp: mT_def rect_ncols rectD intro!: rectI)

lemma dot_rect:
  assumes "rect n k a" "rect k m b" "0 < n" "0 < k"
  shows "\<exists>c. dot a b = Inr c \<and> rect n m c \<and>
           (\<forall>i<n. \<forall>j<m. c ! i ! j = (\<Sum>l\<leftarrow>[0..<k]. a ! i ! l * b ! l ! j))"
  using assms by (auto simp: dot_def rect_ncols rectD intro!: rectI)

lemma bc_same:
  assumes "rect n m a" "rect n m b" "0 < n"
  shows "\<exists>c. bc f a b = Inr c \<and> rect n m c \<and> (\<forall>i<n. \<forall>j<m. c ! i ! j = f (a ! i ! j) (b ! i ! j))"
  using assms by (auto simp: bc_def bdim_def rect_ncols rectD intro!: rectI)

lemma bc_mat_scalar:
  assumes "rect n m a" "rect 1 1 b" "0 < n"
  shows "\<exists>c. bc f a b = Inr c \<and> rect n m c \<and> (\<forall>i<n. \<forall>j<m. c ! i ! j = f (a ! i ! j) (b ! 0 ! 0))"
  using assms by (auto simp: bc_def bdim_def rect_ncols rectD intro!: rectI)

lemma bc_col_row:
  assumes "rect n 1 a" "rect 1 m b" "0 < n"
  shows "\<exists>c. bc f a b = Inr c \<and> rect n m c \<and> (\<forall>i<n. \<forall>j<m. c ! i ! j = f (a ! i ! 0) (b ! 0 ! j))"
  using assms by (auto simp: bc_def bdim_def rect_ncols rectD intro!: rectI)

lemma einsum_i_ij_rect:
  assumes "rect n m a" "length v = n"
  shows "\<exists>c. einsum_i_ij v a = Inr c \<and> rect n m c \<and>
           (\<forall>i<n. \<forall>j<m. c ! i ! j = v ! i * a ! i ! j)"
  using assms by (auto simp: einsum_i_ij_def rectD intro!: rectI)

lemma mmap_rect:
  assumes "rect n m a"
  shows "rect n m (mmap f a)" "\<And>i j. i < n \<Longrightarrow> j < m \<Longrightarrow> mmap f a ! i ! j = f (a ! i ! j)"
  using assms by (auto simp: mmap_def rectD intro!: rectI)

lemma rect_replicate: "rect n 1 (replicate n [v])" "\<And>i. i < n \<Longrightarrow> replicate n [v] ! i ! 0 = v"
  by (auto simp: rect_def list_all_length)

subsection \<open>The reduced likelihood\<close>

text \<open>
  The evaluator on a correlation matrix \<open>r\<close> and a decomposition \<open>(u, s, vh)\<close> of it with
  the shapes \<^verbatim>\<open>scipy.linalg.svd\<close> returns for a square matrix.
\<close>

lemma reduced_likelihood_aux:
  assumes n: "0 < n_samples e" and ny: "0 < ny"
    and y: "rect (n_samples e) ny (Y e)"
    and th: "th = (case arg of None \<Rightarrow> thetas e | Some t \<Rightarrow> t)"
    and cm: "correlation_matrix e th = Inr r"
    and sv: "svd r = Inr (u, s, vh)"
    and us: "rect (n_samples e) (n_samples e) u" "length s = n_samples e"
            "rect (n_samples e) (n_samples e) vh"
  shows "\<exists>rl p. calculate_reduced_likelihood_params svd e arg = Inr (rl, p) \<and>
     U p = u \<and> Vh p = vh \<and>
     S_inv p = map (\<lambda>v. v / (v ^ 2 + (s ! 0 / 10 ^ 8) ^ 2)) s \<and>
     rect (n_samples e) (n_samples e) (R_inv p) \<and>
     rect 1 ny (mu p) \<and> rect (n_samples e) ny (c_r p) \<and> rect ny ny (SigmaSqr p) \<and>
     rect ny ny rl \<and>
     (\<forall>a<n_samples e. \<forall>b<n_samples e.
        R_inv p ! a ! b = (\<Sum>i\<leftarrow>[0..<n_samples e]. vh ! i ! a * (S_inv p ! i * u ! b ! i))) \<and>
     (\<forall>c<ny. mu p ! 0 ! c =
        (\<Sum>a\<leftarrow>[0..<n_samples e]. \<Sum>b\<leftarrow>[0..<n_samples e]. R_inv p ! a ! b * Y e ! b ! c) /
        (\<Sum>a\<leftarrow>[0..<n_samples e]. \<Sum>b\<leftarrow>[0..<n_samples e]. R_inv p ! a ! b)) \<and>
     (\<forall>a<n_samples e. \<forall>c<ny. c_r p ! a ! c =
        (\<Sum>b\<leftarrow>[0..<n_samples e]. R_inv p ! a ! b * (Y e ! b ! c - mu p ! 0 ! c))) \<and>
     (\<forall>c<ny. \<forall>c'<ny. SigmaSqr p ! c ! c' =
        (\<Sum>a\<leftarrow>[0..<n_samples e]. (Y e ! a ! c - mu p ! 0 ! c) * c_r p ! a ! c') /
        real (n_samples e)) \<and>
     (\<forall>c<ny. \<forall>c'<ny. rl ! c ! c' =
        - (real (n_samples e) / 2) * ln (SigmaSqr p ! c ! c')
        - (1 / 2) * (2 * (\<Sum>f\<leftarrow>S_inv p. ln \<bar>f\<bar>)))"
proof -
  let ?n = "n_samples e"
  define inv where "inv = map (\<lambda>v. v / (v ^ 2 + (s ! 0 / 10 ^ 8) ^ 2)) s"
  have linv: "length inv = ?n" by (simp add: inv_def us)
  from us(2) n obtain s0 rest where s: "s = s0 # rest" by (cases s) auto
  have s0: "s ! 0 = s0" by (simp add: s)
  define one :: mat where "one = replicate ?n [1]"
  have one: "rect ?n 1 one" "\<And>i. i < ?n \<Longrightarrow> one ! i ! 0 = 1"
    unfolding one_def by (rule rect_replicate(1)) simp
  note oneT = mT_rect[OF one(1) n]
  note uT = mT_rect[OF us(1) n]
  note vhT = mT_rect[OF us(3) n]
  from einsum_i_ij_rect[OF uT(1) linv] obtain w where
    w: "einsum_i_ij inv (mT u) = Inr w" "rect ?n ?n w"
       "\<And>i j. i < ?n \<Longrightarrow> j < ?n \<Longrightarrow> w ! i ! j = inv ! i * mT u ! i ! j"
    by blast
  from dot_rect[OF vhT(1) w(2) n n] obtain ri where
    ri: "dot (mT vh) w = Inr ri" "rect ?n ?n ri"
        "\<And>a b. a < ?n \<Longrightarrow> b < ?n \<Longrightarrow> ri ! a ! b = (\<Sum>l\<leftarrow>[0..<?n]. mT vh ! a ! l * w ! l ! b)"
    by blast
  from dot_rect[OF ri(2) y n n] obtain ry where
    ry: "dot ri (Y e) = Inr ry" "rect ?n ny ry"
        "\<And>a c. a < ?n \<Longrightarrow> c < ny \<Longrightarrow> ry ! a ! c = (\<Sum>b\<leftarrow>[0..<?n]. ri ! a ! b * Y e ! b ! c)"
    by blast
  from dot_rect[OF oneT(1) ry(2) _ n] obtain num where
    num: "dot (mT one) ry = Inr num" "rect 1 ny num"
        "\<And>c. c < ny \<Longrightarrow> num ! 0 ! c = (\<Sum>a\<leftarrow>[0..<?n]. mT one ! 0 ! a * ry ! a ! c)"
    by auto
  from dot_rect[OF ri(2) one(1) n n] obtain r1 where
    r1: "dot ri one = Inr r1" "rect ?n 1 r1"
        "\<And>a. a < ?n \<Longrightarrow> r1 ! a ! 0 = (\<Sum>b\<leftarrow>[0..<?n]. ri ! a ! b * one ! b ! 0)"
    by auto
  from dot_rect[OF oneT(1) r1(2) _ n] obtain den where
    den: "dot (mT one) r1 = Inr den" "rect 1 1 den"
        "den ! 0 ! 0 = (\<Sum>a\<leftarrow>[0..<?n]. mT one ! 0 ! a * r1 ! a ! 0)"
    by auto
  from bc_mat_scalar[OF num(2) den(2), of "(/)"] obtain m where
    m: "bc (/) num den = Inr m" "rect 1 ny m"
       "\<And>c. c < ny \<Longrightarrow> m ! 0 ! c = num ! 0 ! c / den ! 0 ! 0"
    by auto
  from bc_col_row[OF one(1) m(2) n, of "(*)"] obtain onemu where
    onemu: "bc (*) one m = Inr onemu" "rect ?n ny onemu"
       "\<And>i c. i < ?n \<Longrightarrow> c < ny \<Longrightarrow> onemu ! i ! c = one ! i ! 0 * m ! 0 ! c"
    by blast
  from bc_same[OF y onemu(2) n, of "(-)"] obtain resid where
    resid0: "bc (-) (Y e) onemu = Inr resid" "rect ?n ny resid"
       "\<And>i c. i < ?n \<Longrightarrow> c < ny \<Longrightarrow> resid ! i ! c = Y e ! i ! c - onemu ! i ! c"
    by blast
  have resid: "bc (-) (Y e) onemu = Inr resid" "rect ?n ny resid"
       "\<And>i c. i < ?n \<Longrightarrow> c < ny \<Longrightarrow> resid ! i ! c = Y e ! i ! c - m ! 0 ! c"
    using resid0 by (simp_all add: onemu(3) one(2))
  from dot_rect[OF ri(2) resid(2) n n] obtain cr where
    cr: "dot ri resid = Inr cr" "rect ?n ny cr"
        "\<And>a c. a < ?n \<Longrightarrow> c < ny \<Longrightarrow> cr ! a ! c = (\<Sum>b\<leftarrow>[0..<?n]. ri ! a ! b * resid ! b ! c)"
    by blast
  note residT = mT_rect[OF resid(2) n]
  from dot_rect[OF residT(1) cr(2) ny n] obtain sd where
    sd: "dot (mT resid) cr = Inr sd" "rect ny ny sd"
        "\<And>c c'. c < ny \<Longrightarrow> c' < ny \<Longrightarrow> sd ! c ! c' = (\<Sum>a\<leftarrow>[0..<?n]. mT resid ! c ! a * cr ! a ! c')"
    by blast
  define sig where "sig = mmap (\<lambda>v. v / real ?n) sd"
  define logdet where "logdet = 2 * (\<Sum>f\<leftarrow>inv. ln \<bar>f\<bar>)"
  define rl where "rl = mmap (\<lambda>v. 1 * (- (real ?n / 2) * ln v - (1 / 2) * logdet)) sig"
  define p where "p = \<lparr>mu = m, SigmaSqr = sig, S_inv = inv, U = u, Vh = vh, c_r = cr, R_inv = ri\<rparr>"
  note sigr = mmap_rect[OF sd(2), where f = "\<lambda>v. v / real ?n", folded sig_def]
  note rlr = mmap_rect[OF sigr(1), where f = "\<lambda>v. 1 * (- (real ?n / 2) * ln v - (1 / 2) * logdet)", folded rl_def]
  have sne: "(s = []) = False" and hd: "hd s = s ! 0"
    by (simp_all add: s)
  have calc: "calculate_reduced_likelihood_params svd e arg = Inr (rl, p)"
    unfolding calculate_reduced_likelihood_params_def Let_def
    unfolding th[symmetric] cm bnd_def sum.case sv prod.case list.case_eq_if sne if_False hd
      inv_def[symmetric] one_def[symmetric]
      w(1) ri(1) ry(1) num(1) r1(1) den(1) m(1) onemu(1) resid(1) cr(1) sd(1)
    by (simp add: rl_def sig_def logdet_def p_def)
  have Rinv: "ri ! a ! b = (\<Sum>i\<leftarrow>[0..<?n]. vh ! i ! a * (inv ! i * u ! b ! i))"
    if "a < ?n" "b < ?n" for a b
    unfolding ri(3)[OF that]
    using that by (intro sum_list_upt_cong) (simp add: vhT(2) w(3) uT(2))
  have numc: "num ! 0 ! c = (\<Sum>a\<leftarrow>[0..<?n]. \<Sum>b\<leftarrow>[0..<?n]. ri ! a ! b * Y e ! b ! c)"
    if "c < ny" for c
    unfolding num(3)[OF that]
    using that by (intro sum_list_upt_cong) (simp add: oneT(2) one(2) ry(3))
  have denc: "den ! 0 ! 0 = (\<Sum>a\<leftarrow>[0..<?n]. \<Sum>b\<leftarrow>[0..<?n]. ri ! a ! b)"
    unfolding den(3)
  proof (intro sum_list_upt_cong)
    fix a assume a: "a < ?n"
    have "r1 ! a ! 0 = (\<Sum>b\<leftarrow>[0..<?n]. ri ! a ! b)"
      unfolding r1(3)[OF a] by (intro sum_list_upt_cong) (simp add: one(2))
    with a show "mT one ! 0 ! a * r1 ! a ! 0 = (\<Sum>b\<leftarrow>[0..<?n]. ri ! a ! b)"
      by (simp add: oneT(2) one(2))
  qed
  have muc: "m ! 0 ! c = (\<Sum>a\<leftarrow>[0..<?n]. \<Sum>b\<leftarrow>[0..<?n]. ri ! a ! b * Y e ! b ! c) /
        (\<Sum>a\<leftarrow>[0..<?n]. \<Sum>b\<leftarrow>[0..<?n]. ri ! a ! b)" if "c < ny" for c
    using m(3)[OF that] numc[OF that] denc by simp
  have crc: "cr ! a ! c = (\<Sum>b\<leftarrow>[0..<?n]. ri ! a ! b * (Y e ! b ! c - m ! 0 ! c))"
    if "a < ?n" "c < ny" for a c
    unfolding cr(3)[OF that]
    using that by (intro sum_list_upt_cong) (simp add: resid(3))
  have sigc: "sig ! c ! c' = (\<Sum>a\<leftarrow>[0..<?n]. (Y e ! a ! c - m ! 0 ! c) * cr ! a ! c') / real ?n"
    if "c < ny" "c' < ny" for c c'
  proof -
    have "sd ! c ! c' = (\<Sum>a\<leftarrow>[0..<?n]. (Y e ! a ! c - m ! 0 ! c) * cr ! a ! c')"
      unfolding sd(3)[OF that]
      using that by (intro sum_list_upt_cong) (simp add: residT(2) resid(3))
    then show ?thesis using sigr(2)[OF that] by simp
  qed
  have rlc: "rl ! c ! c' = - (real ?n / 2) * ln (sig ! c ! c') - (1 / 2) * (2 * (\<Sum>f\<leftarrow>inv. ln \<bar>f\<bar>))"
    if "c < ny" "c' < ny" for c c'
    using rlr(2)[OF that] by (simp add: logdet_def)
  show ?thesis
    apply (rule exI[of _ rl], rule exI[of _ p])
    using calc ri(2) m(2) cr(2) sigr(1) rlr(1) Rinv muc crc sigc rlc
    by (simp add: p_def inv_def)
qed

text \<open>
  C6. For a thetas vector (the argument, or the stored one when there is none), with \<open>r\<close>
  the correlation matrix and \<open>(u, s, vh)\<close> its decomposition, the evaluator returns a
  likelihood \<open>rl\<close> and parameters \<open>p\<close> such that: \<open>S_inv = s / (s\<^sup>2 + h\<^sup>2)\<close> with
  \<open>h = s[0] / 10\<^sup>8\<close>; \<open>R_inv = vh\<^sup>T diag(S_inv) u\<^sup>T\<close>; \<open>mu = (1\<^sup>T R_inv Y) / (1\<^sup>T R_inv 1)\<close>;
  \<open>c_r = R_inv (Y - 1 mu)\<close>; \<open>SigmaSqr = (Y - 1 mu)\<^sup>T c_r / n_samples\<close>; and
  \<open>rl = - (n_samples / 2) ln SigmaSqr - (1 / 2) logdet\<close> with
  \<open>logdet = 2 \<Sum> ln |S_inv|\<close>, entry by entry, for \<open>ny\<close> output columns.
\<close>

theorem reduced_likelihood_params:
  assumes n: "0 < n_samples e" and ny: "0 < ny"
    and y: "rect (n_samples e) ny (Y e)"
    and th: "th = (case arg of None \<Rightarrow> thetas e | Some t \<Rightarrow> t)"
    and cm: "correlation_matrix e th = Inr r"
    and sv: "svd r = Inr (u, s, vh)"
    and us: "rect (n_samples e) (n_samples e) u" "length s = n_samples e"
            "rect (n_samples e) (n_samples e) vh"
  shows "\<exists>rl p. calculate_reduced_likelihood_params svd e arg = Inr (rl, p) \<and>
     U p = u \<and> Vh p = vh \<and>
     S_inv p = map (\<lambda>v. v / (v ^ 2 + (s ! 0 / 10 ^ 8) ^ 2)) s \<and>
     rect (n_samples e) (n_samples e) (R_inv p) \<and>
     rect 1 ny (mu p) \<and> rect (n_samples e) ny (c_r p) \<and> rect ny ny (SigmaSqr p) \<and>
     rect ny ny rl \<and>
     (\<forall>a<n_samples e. \<forall>b<n_samples e.
        R_inv p ! a ! b = (\<Sum>i\<leftarrow>[0..<n_samples e]. vh ! i ! a * (S_inv p ! i * u ! b ! i))) \<and>
     (\<forall>c<ny. mu p ! 0 ! c =
        (\<Sum>a\<leftarrow>[0..<n_samples e]. \<Sum>b\<leftarrow>[0..<n_samples e]. R_inv p ! a ! b * Y e ! b ! c) /
        (\<Sum>a\<leftarrow>[0..<n_samples e]. \<Sum>b\<leftarrow>[0..<n_samples e]. R_inv p ! a ! b)) \<and>
     (\<forall>a<n_samples e. \<forall>c<ny. c_r p ! a ! c =
        (\<Sum>b\<leftarrow>[0..<n_samples e]. R_inv p ! a ! b * (Y e ! b ! c - mu p ! 0 ! c))) \<and>
     (\<forall>c<ny. \<forall>c'<ny. SigmaSqr p ! c ! c' =
        (\<Sum>a\<leftarrow>[0..<n_samples e]. (Y e ! a ! c - mu p ! 0 ! c) * c_r p ! a ! c') /
        real (n_samples e)) \<and>
     (\<forall>c<ny. \<forall>c'<ny. rl ! c ! c' =
        - (real (n_samples e) / 2) * ln (SigmaSqr p ! c ! c')
        - (1 / 2) * (2 * (\<Sum>f\<leftarrow>S_inv p. ln \<bar>f\<bar>)))"
  using assms by (rule reduced_likelihood_aux)

text \<open>The example engine: two points at \<open>-1\<close> and \<open>1\<close>, one output column, \<open>thetas = [1]\<close>.\<close>

lemma example_correlation_model:
  "correlation_matrix (example_engine\<lparr>model := md\<rparr>) [1] =
     Inr [[11 / 10, exp (- 4)], [exp (- 4), 11 / 10]]"
  by (simp add: correlation_matrix_def example_engine_def rect_def nrows_def bnd_def correlation_def
      distances_entry set_diag_def nugget_at_def upt_rec)

lemma example_likelihood:
  "\<exists>rl p. calculate_reduced_likelihood_params example_svd (example_engine\<lparr>model := md\<rparr>) None
      = Inr (rl, p)"
proof -
  let ?e = "example_engine\<lparr>model := md\<rparr>"
  have h: "0 < n_samples ?e" "0 < (1 :: nat)" "rect (n_samples ?e) 1 (Y ?e)"
    "[1] = (case None of None \<Rightarrow> thetas ?e | Some t \<Rightarrow> t)"
    by (simp_all add: example_engine_def rect_def)
  have sv: "example_svd [[11 / 10, exp (- 4)], [exp (- 4), 11 / 10]] =
      Inr ([[1, 0], [0, 1]], [1, 1], [[1, 0], [0, 1]])"
    by (simp add: example_svd_def)
  have us: "rect (n_samples ?e) (n_samples ?e) [[1, 0], [0, 1]]" "length [1, 1 :: real] = n_samples ?e"
    by (simp_all add: example_engine_def rect_def)
  from reduced_likelihood_aux[where svd = example_svd, OF h example_correlation_model sv us(1) us(2) us(1)]
  show ?thesis
    apply (elim exE conjE)
    apply (rule exI)+
    apply assumption
    done
qed

theorem reduced_likelihood_params_witness:
  "0 < n_samples example_engine \<and> rect (n_samples example_engine) 1 (Y example_engine) \<and>
   correlation_matrix example_engine [1] = Inr [[11 / 10, exp (- 4)], [exp (- 4), 11 / 10]] \<and>
   example_svd [[11 / 10, exp (- 4)], [exp (- 4), 11 / 10]] =
      Inr ([[1, 0], [0, 1]], [1, 1], [[1, 0], [0, 1]]) \<and>
   (\<exists>rl p. calculate_reduced_likelihood_params example_svd example_engine (Some [1]) = Inr (rl, p) \<and>
      U p = [[1, 0], [0, 1]] \<and> Vh p = [[1, 0], [0, 1]] \<and>
      S_inv p = [1 / (1 + (1 / 10 ^ 8) ^ 2), 1 / (1 + (1 / 10 ^ 8) ^ 2)] \<and>
      rect 2 2 (R_inv p) \<and> rect 1 1 (mu p) \<and> rect 2 1 (c_r p) \<and> rect 1 1 (SigmaSqr p))"
proof -
  let ?e = "example_engine"
  have h: "0 < n_samples ?e" "0 < (1 :: nat)" "rect (n_samples ?e) 1 (Y ?e)"
    "[1] = (case Some [1] of None \<Rightarrow> thetas ?e | Some t \<Rightarrow> t)"
    by (simp_all add: example_engine_def rect_def)
  have cm: "correlation_matrix ?e [1] = Inr [[11 / 10, exp (- 4)], [exp (- 4), 11 / 10]]"
    using example_correlation_model[of "model example_engine"] by simp
  have sv: "example_svd [[11 / 10, exp (- 4)], [exp (- 4), 11 / 10]] =
      Inr ([[1, 0], [0, 1]], [1, 1], [[1, 0], [0, 1]])"
    by (simp add: example_svd_def)
  have us: "rect (n_samples ?e) (n_samples ?e) [[1, 0], [0, 1]]" "length [1, 1 :: real] = n_samples ?e"
    by (simp_all add: example_engine_def rect_def)
  have n2: "n_samples ?e = 2" by (simp add: example_engine_def)
  from reduced_likelihood_params[where svd = example_svd, OF h cm sv us(1) us(2) us(1)]
  obtain rl p where f:
    "calculate_reduced_likelihood_params example_svd ?e (Some [1]) = Inr (rl, p)"
    "U p = [[1, 0], [0, 1]]" "Vh p = [[1, 0], [0, 1]]"
    "S_inv p = map (\<lambda>v. v / (v ^ 2 + ([1, 1] ! 0 / 10 ^ 8) ^ 2)) [1, 1]"
    "rect (n_samples ?e) (n_samples ?e) (R_inv p)" "rect 1 1 (mu p)"
    "rect (n_samples ?e) 1 (c_r p)" "rect 1 1 (SigmaSqr p)"
    apply (elim exE conjE)
    subgoal for rl p
      apply (rule that[of rl p])
             apply assumption+
      done
    done
  have g: "\<exists>rl p. calculate_reduced_likelihood_params example_svd example_engine (Some [1]) = Inr (rl, p) \<and>
      U p = [[1, 0], [0, 1]] \<and> Vh p = [[1, 0], [0, 1]] \<and>
      S_inv p = [1 / (1 + (1 / 10 ^ 8) ^ 2), 1 / (1 + (1 / 10 ^ 8) ^ 2)] \<and>
      rect 2 2 (R_inv p) \<and> rect 1 1 (mu p) \<and> rect 2 1 (c_r p) \<and> rect 1 1 (SigmaSqr p)"
    apply (rule exI[of _ rl], rule exI[of _ p])
    using f by (simp add: n2)
  from h(1) h(3) cm sv g show ?thesis by (intro conjI)
qed

subsection \<open>Training: a successful optimization\<close>

text \<open>No call of \<open>train\<close> returns normally: each of its paths ends with an exception.\<close>

lemma train_never_returns: "snd (snd (train svd minimize e x y nf)) \<noteq> Inr ()"
  by (simp add: train_def Let_def split: sum.splits prod.splits)

text \<open>
  C1. For a training set with at least two rows on which the optimizer reports success
  and the evaluator returns the parameters \<open>p\<close> at \<open>thetas = 10 ^ opt_x\<close>: \<open>train\<close> stores
  these \<open>thetas\<close> and the seven parameters on the engine, then writes five values to
  standard output and ends with \<^verbatim>\<open>exit()\<close>, that is with \<open>SystemExit\<close>. Control does not
  come back to the caller.
\<close>

theorem train_success_exits:
  assumes acc: "2 \<le> nrows (atleast_2d x)"
    and e3: "e3 = store_normalized
                (e\<lparr>trained := True, n_samples := nrows (atleast_2d x),
                   n_dims := ncols (atleast_2d x)\<rparr>) (atleast_2d x) (atleast_2d y) nf"
    and opt: "minimize (calcll svd e3) (replicate (n_dims e3) [- 1 / 2])
                (replicate (n_dims e3) (- 3, 2)) = Inr res"
    and ok: "success res"
    and calc: "calculate_reduced_likelihood_params svd
                 (e3\<lparr>thetas := map (\<lambda>t. 10 powr t) (opt_x res)\<rparr>) None = Inr (rl, p)"
  shows "train svd minimize e x y nf =
     (e3\<lparr>thetas := map (\<lambda>t. 10 powr t) (opt_x res), model := Some p\<rparr>,
      [PStr ''kriging test'', PVec (map (\<lambda>t. 10 powr t) (opt_x res)), PMat (R_inv p),
       PMat (SigmaSqr p), PMat (mu p)],
      Inl SystemExit)"
proof -
  from acc have na: "\<not> nrows (atleast_2d x) \<le> 1" by simp
  have x0: "[- 3 * 1 + (1 / 2) * (5 * 1)] = [- 1 / (2 :: real)]" by simp
  show ?thesis
    unfolding train_def Let_def
    using na opt ok calc
    by (simp add: e3[symmetric] x0)
qed

text \<open>Training on the inputs 0 and 2 with the outputs 0 and 2 gives the example engine.\<close>

lemma example_stats: "mean0 [[0], [2]] = [1]" "std0 [[0], [2]] = [1]"
  by (simp_all add: std0_def mean0_def ncols_def nrows_def upt_rec)

lemma example_prepared:
  "store_normalized
     ((init (NuggetScalar (1 / 10)))\<lparr>trained := True, n_samples := nrows [[0], [2]],
         n_dims := ncols [[0], [2]]\<rparr>) [[0], [2]] [[0], [2]] True =
   example_engine\<lparr>thetas := [], model := None\<rparr>"
  by (simp add: store_normalized_def init_def example_stats clamp_zero_std_def normalized_def
      Let_def example_engine_def nrows_def ncols_def)

theorem train_success_exits_witness:
  "2 \<le> nrows (atleast_2d (Array2 [[0], [2]])) \<and>
   (\<exists>p. train example_svd example_minimize (init (NuggetScalar (1 / 10)))
           (Array2 [[0], [2]]) (Array2 [[0], [2]]) True =
         (example_engine\<lparr>model := Some p\<rparr>,
          [PStr ''kriging test'', PVec [1], PMat (R_inv p), PMat (SigmaSqr p), PMat (mu p)],
          Inl SystemExit))"
proof -
  let ?x = "Array2 [[0], [2]]"
  let ?e3 = "example_engine\<lparr>thetas := [], model := None\<rparr>"
  have acc: "2 \<le> nrows (atleast_2d ?x)"
    by (simp add: atleast_2d_Array2 nrows_def)
  have e3: "?e3 = store_normalized
      ((init (NuggetScalar (1 / 10)))\<lparr>trained := True, n_samples := nrows (atleast_2d ?x),
          n_dims := ncols (atleast_2d ?x)\<rparr>) (atleast_2d ?x) (atleast_2d ?x) True"
    unfolding atleast_2d_Array2 by (rule example_prepared[symmetric])
  have opt: "example_minimize (calcll example_svd ?e3) (replicate (n_dims ?e3) [- 1 / 2])
       (replicate (n_dims ?e3) (- 3, 2)) =
     Inr \<lparr>success = True, opt_x = [0], message = ''Optimization terminated successfully.''\<rparr>"
    by (simp add: example_minimize_def)
  have e4: "?e3\<lparr>thetas := map (\<lambda>t. 10 powr t) [0]\<rparr> = example_engine\<lparr>model := None\<rparr>"
    by (simp add: example_engine_def)
  from example_likelihood[of None] obtain rl p where
    calc: "calculate_reduced_likelihood_params example_svd (example_engine\<lparr>model := None\<rparr>) None
      = Inr (rl, p)"
    by blast
  have "train example_svd example_minimize (init (NuggetScalar (1 / 10))) ?x ?x True =
         (example_engine\<lparr>model := Some p\<rparr>,
          [PStr ''kriging test'', PVec [1], PMat (R_inv p), PMat (SigmaSqr p), PMat (mu p)],
          Inl SystemExit)"
    using train_success_exits[where svd = example_svd and minimize = example_minimize and rl = rl and p = p,
        OF acc e3 opt] calc
    by (simp add: e4 example_engine_def)
  with acc show ?thesis by blast
qed

subsection \<open>Prediction on the example engine\<close>

text \<open>
  The two training inputs 0 and 2 as one batch of two query points. Normalized they are the
  stored points \<open>-1\<close> and \<open>1\<close>, so each has the correlation 1 with itself and \<open>exp (- 4)\<close>
  with the other, kept in the element type \<open>t\<close> of the query array.
\<close>

lemma example_kernel_rows:
  "correlation_rows t 2 [1] [[- 1], [1]] [[- 1], [1]] =
     Inr [[cast t 1, cast t (exp (- 4))], [cast t (exp (- 4)), cast t 1]]"
  by (simp add: kernel_row_def bc_def bnd_def nrows_def ncols_def bdim_def mT_def mmap_def
      dot_vm_def store_row_def upt_rec)

lemma example_x_n:
  "bnd (bc (-) [[0], [2]] [[1]]) (\<lambda>d. bc (/) d [[1]]) = Inr [[- 1], [1]]"
  by (simp add: bc_def bnd_def nrows_def ncols_def bdim_def upt_rec)

lemma example_predict_mean:
  "predict example_engine t (Array2 [[0], [2]]) False True =
     Inr (Mean [[- cast t 1 + cast t (exp (- 4))], [- cast t (exp (- 4)) + cast t 1]])"
  unfolding predict_def
  by (simp add: example_engine_def atleast_2d_def example_x_n example_kernel_rows Let_def
      bnd_def mT_def dot_def bc_def nrows_def ncols_def bdim_def upt_conv_Cons
      del: correlation_rows.simps)

lemma cast_example: "cast Int64 (exp (- 4)) = 0" "cast Int64 1 = 1" "cast Float64 v = v"
proof -
  have "exp (- 4 :: real) < 1" by simp
  moreover have "0 < exp (- 4 :: real)" by simp
  ultimately have "\<lfloor>exp (- 4 :: real)\<rfloor> = 0" by linarith
  then show "cast Int64 (exp (- 4)) = 0" by (simp add: cast_def)
  show "cast Int64 1 = 1" "cast Float64 v = v" by (simp_all add: cast_def)
qed

text \<open>
  C3. When the full predictor, called without the RMSE, returns the mean \<open>y\<close> (one row for
  each query point), the scalar predictor returns \<open>y[0]\<close>: the first row of the mean alone,
  and \<open>IndexError\<close> when the mean has no row. For a batch of several query points it is
  not the mean the full predictor returns: the rows of all points but the first are
  dropped.
\<close>

theorem float_predict_first_row:
  assumes "predict e t x False True = Inr (Mean y)"
  shows "float_predict e t x = (case y of [] \<Rightarrow> Inl IndexError | row # _ \<Rightarrow> Inr (A1 row))"
  using assms by (simp add: float_predict_def bnd_def)

text \<open>The batch of two points: the full predictor returns two means, the scalar predictor one.\<close>

theorem float_predict_first_row_witness:
  "predict example_engine Float64 (Array2 [[0], [2]]) False True =
     Inr (Mean [[exp (- 4) - 1], [1 - exp (- 4)]]) \<and>
   float_predict example_engine Float64 (Array2 [[0], [2]]) = Inr (A1 [exp (- 4) - 1])"
proof -
  have p: "predict example_engine Float64 (Array2 [[0], [2]]) False True =
     Inr (Mean [[exp (- 4) - 1], [1 - exp (- 4)]])"
    using example_predict_mean[of Float64] by (simp add: cast_example)
  from float_predict_first_row[OF p] p show ?thesis by simp
qed

text \<open>
  C4. The work array \<open>r\<close> of \<open>predict\<close> takes the element type of the query array. For a
  query array of integers the correlations are truncated when they are stored: on the
  batch of the integers 0 and 2 the correlation \<open>exp (- 4)\<close> is stored as 0 and the mean
  returned is \<open>mu + r\<^sup>T c_r\<close> for the truncated \<open>r\<close>, not for the Gaussian kernel. The same
  points in a float array give the mean of the kernel.
\<close>

theorem predict_integer_query:
  "predict example_engine Int64 (Array2 [[0], [2]]) False True = Inr (Mean [[- 1], [1]]) \<and>
   predict example_engine Float64 (Array2 [[0], [2]]) False True =
     Inr (Mean [[exp (- 4) - 1], [1 - exp (- 4)]])"
  using example_predict_mean[of Int64] example_predict_mean[of Float64]
  by (simp add: cast_example)

subsection \<open>The Jacobian after training\<close>

text \<open>\<open>train\<close> never assigns \<open>alpha\<close>: it keeps the value the constructor gave it.\<close>

lemma train_alpha: "alpha (fst (train svd minimize e x y nf)) = alpha e"
  by (simp add: train_def store_normalized_def Let_def split: sum.splits prod.splits)

text \<open>
  With a one-dimensional \<open>alpha\<close> the call \<open>linearize\<close> cannot return: the product
  \<^verbatim>\<open>gradr.dot(self.alpha)\<close> raises when the shapes are not aligned and is one-dimensional
  otherwise, which the final \<^verbatim>\<open>einsum\<close> with the subscripts \<^verbatim>\<open>ij\<close> refuses.
\<close>

lemma linearize_flat_alpha: "alpha e = A1 v \<Longrightarrow> \<exists>err. linearize e x = Inl err"
  by (auto simp: linearize_def bnd_def dot_nd_def nd_T_def einsum_i_j_ij_def split: sum.splits)

text \<open>
  C2. \<open>linearize\<close> weights the gradient of the correlations with \<open>alpha\<close>, not with the
  residual weights \<open>c_r\<close>. On an engine that was constructed and then trained \<open>alpha\<close> is
  still the empty array of the constructor, so \<open>linearize\<close> raises on every query point
  and returns no Jacobian, whatever the training data and however the training ended.
\<close>

theorem linearize_raises:
  "\<exists>err. linearize (fst (train svd minimize (init ng) xs ys nf)) x = Inl err"
  by (rule linearize_flat_alpha[where v = "[]"]) (simp add: train_alpha init_def)

text \<open>On the example engine the product of the 1x2 gradient with the empty \<open>alpha\<close> raises.\<close>

lemma example_linearize:
  "linearize example_engine (Array1 [0]) = Inl (ValueError ''shapes not aligned'')"
  by (simp add: linearize_def linearize_gradr_def linearize_x_n_def example_engine_def
      atleast_2d_def bc_def bnd_def nrows_def ncols_def bdim_def mT_def mmap_def dot_vm_def
      einsum_i_ij_def dot_nd_def upt_rec)

subsection \<open>The normalization in the Jacobian\<close>

text \<open>Two rows of the same positive length broadcast entry by entry.\<close>

lemma bc_row_row:
  assumes "length a = d" "length b = d" "0 < d"
  shows "bc f [a] [b] = Inr [map (\<lambda>j. f (a ! j) (b ! j)) [0..<d]]"
  using assms by (auto simp: bc_def nrows_def ncols_def bdim_def)

lemma length_mean0: "length (mean0 a) = ncols a"
  by (simp add: mean0_def)

lemma length_std0: "length (clamp_zero_std (std0 a)) = ncols a"
  by (simp add: std0_def clamp_zero_std_def)

text \<open>The normalized query of \<open>linearize\<close> for a single point of the stored dimension.\<close>

lemma linearize_x_n_row:
  assumes "length q = d" "length (X_mean e) = d" "length (X_std e) = d" "0 < d"
  shows "linearize_x_n e (Array1 q) =
           Inr [map (\<lambda>j. (q ! j - X_mean e ! j) / X_std e ! j) [0..<d]]"
proof -
  have a: "bc (-) [q] [X_mean e] = Inr [map (\<lambda>j. q ! j - X_mean e ! j) [0..<d]]"
    using assms by (intro bc_row_row) simp_all
  have b: "bc (/) [map (\<lambda>j. q ! j - X_mean e ! j) [0..<d]] [X_std e] =
      Inr [map (\<lambda>j. map (\<lambda>j. q ! j - X_mean e ! j) [0..<d] ! j / X_std e ! j) [0..<d]]"
    using assms by (intro bc_row_row) simp_all
  show ?thesis
    unfolding linearize_x_n_def atleast_2d_Array1 a bnd_def sum.case b
    by simp
qed

text \<open>
  C10. After an accepted call of \<open>train\<close>, with or without \<open>normalize\<close>, the engine holds the
  column means and the clamped deviations of the inputs and of the outputs; without
  \<open>normalize\<close> the stored \<open>X\<close> is the raw input. \<open>linearize\<close> has no flag: for a query point
  \<open>q\<close> of the stored dimension it computes \<open>x_n = (q - X_mean) / X_std\<close> in both cases, and
  the gradient of the correlations is evaluated at the differences of \<open>x_n\<close> and the stored
  \<open>X\<close>, normalized or not.
\<close>

theorem linearize_always_normalizes:
  assumes "2 \<le> nrows (atleast_2d xs)" and "length q = ncols (atleast_2d xs)" and "0 < length q"
  shows "let e' = fst (train svd minimize e xs ys nf); x2 = atleast_2d xs; y2 = atleast_2d ys;
             x_n = map (\<lambda>j. (q ! j - mean0 x2 ! j) / clamp_zero_std (std0 x2) ! j) [0..<length q]
         in
           X e' = (if nf then normalized x2 (mean0 x2) (clamp_zero_std (std0 x2)) else x2) \<and>
           X_mean e' = mean0 x2 \<and> X_std e' = clamp_zero_std (std0 x2) \<and>
           Y_mean e' = mean0 y2 \<and> Y_std e' = clamp_zero_std (std0 y2) \<and>
           linearize_x_n e' (Array1 q) = Inr [x_n] \<and>
           linearize_gradr e' (Array1 q) =
             bnd (bc (-) [x_n] (X e')) (\<lambda>diff.
             bnd (dot_vm (thetas e') (mmap (\<lambda>v. v ^ 2) (mT diff))) (\<lambda>s.
             bnd (einsum_i_ij (thetas e') (mT diff)) (\<lambda>td.
             bc (*) [map (\<lambda>v. v * (- 2)) (map (\<lambda>v. exp (- v)) s)] td)))"
proof -
  from assms(1) have acc: "\<not> nrows (atleast_2d xs) \<le> 1" by simp
  note tf = train_fields[OF acc, of svd minimize e ys nf, unfolded Let_def]
  define e' where "e' = fst (train svd minimize e xs ys nf)"
  have xn: "linearize_x_n e' (Array1 q) =
      Inr [map (\<lambda>j. (q ! j - X_mean e' ! j) / X_std e' ! j) [0..<length q]]"
    using tf assms(2,3) unfolding e'_def
    by (intro linearize_x_n_row) (simp_all add: length_mean0 length_std0)
  have gr: "linearize_gradr e' (Array1 q) =
             bnd (bc (-) [map (\<lambda>j. (q ! j - X_mean e' ! j) / X_std e' ! j) [0..<length q]] (X e')) (\<lambda>diff.
             bnd (dot_vm (thetas e') (mmap (\<lambda>v. v ^ 2) (mT diff))) (\<lambda>s.
             bnd (einsum_i_ij (thetas e') (mT diff)) (\<lambda>td.
             bc (*) [map (\<lambda>v. v * (- 2)) (map (\<lambda>v. exp (- v)) s)] td)))"
    unfolding linearize_gradr_def xn Let_def by (simp only: bnd_def sum.case)
  show ?thesis
    using tf xn gr unfolding Let_def e'_def[symmetric] by simp
qed

text \<open>
  Training on the raw inputs 0 and 2 without \<open>normalize\<close>: the query 3 becomes
  \<open>(3 - 1) / 1 = 2\<close> while the stored inputs stay 0 and 2.
\<close>

lemma example_stats_raw: "mean0 [[0], [2]] = [1]" "std0 [[0], [2]] = [1]"
  by (simp_all add: std0_def mean0_def ncols_def nrows_def upt_rec)

theorem linearize_always_normalizes_witness:
  "2 \<le> nrows (atleast_2d (Array2 [[0], [2]])) \<and> length [3 :: real] = ncols (atleast_2d (Array2 [[0], [2]])) \<and>
   0 < length [3 :: real] \<and>
   (let e' = fst (train example_svd example_minimize (init (NuggetScalar (1 / 10)))
                    (Array2 [[0], [2]]) (Array2 [[0], [2]]) False)
    in X e' = [[0], [2]] \<and> X_mean e' = [1] \<and> X_std e' = [1] \<and>
       linearize_x_n e' (Array1 [3]) = Inr [[2]])"
proof -
  have h: "2 \<le> nrows (atleast_2d (Array2 [[0], [2]]))"
    "length [3 :: real] = ncols (atleast_2d (Array2 [[0], [2]]))" "0 < length [3 :: real]"
    by (simp_all add: atleast_2d_Array2 nrows_def ncols_def)
  show ?thesis
    using h linearize_always_normalizes[OF h, of example_svd example_minimize
        "init (NuggetScalar (1 / 10))" "Array2 [[0], [2]]" False]
    by (simp add: Let_def atleast_2d_Array2 example_stats_raw clamp_zero_std_def ncols_def nrows_def)
qed

subsection \<open>The root mean squared error\<close>







end
